theory Spec2Isabelle
  imports Complex_Main
begin

section \<open>JavaScript values\<close>

text \<open>
  The brush palette is JavaScript, so every field of the brush, of a preset and of a
  settings value can hold any value. A number is a double: the module only compares
  numbers, takes maxima and tests truthiness, and these operations are exact, so a finite
  double is modelled by the real it denotes (both zeros by \<open>Fin 0\<close>), next to the
  three special values. The literals 0.1, 0.5 and 0.05 are 1/10, 1/2 and 1/20.
  Symbols and BigInts, on which \<open>Number\<close> and \<open>Math.max\<close> can throw, are not among
  the values.
\<close>

datatype jsnum = NaN | NegInf | Fin real | PosInf

text \<open>
  An object carries its reference (strict equality compares references) and its own
  properties. A missing property reads as \<open>JUndefined\<close>.
\<close>

datatype jsval =
    JUndefined
  | JNull
  | JBool bool
  | JNum jsnum
  | JStr string
  | JObj nat "(string \<times> jsval) list"

text \<open>
  What the module leaves to the JavaScript runtime is taken as a parameter: the number a
  string converts to, the number an object converts to (through its primitive value), and
  \<open>JSON.parse\<close>, which returns \<open>None\<close> where it throws a SyntaxError.
\<close>

record runtime =
  StringToNumber :: "string \<Rightarrow> jsnum"
  ObjectToNumber :: "nat \<Rightarrow> (string \<times> jsval) list \<Rightarrow> jsnum"
  JSON_parse :: "string \<Rightarrow> jsval option"

fun truthy :: "jsval \<Rightarrow> bool" where
  "truthy JUndefined = False"
| "truthy JNull = False"
| "truthy (JBool b) = b"
| "truthy (JNum NaN) = False"
| "truthy (JNum (Fin x)) = (x \<noteq> 0)"
| "truthy (JNum NegInf) = True"
| "truthy (JNum PosInf) = True"
| "truthy (JStr s) = (s \<noteq> [])"
| "truthy (JObj r fs) = True"

text \<open>\<open>Number(v)\<close>.\<close>

fun Number_js :: "runtime \<Rightarrow> jsval \<Rightarrow> jsnum" where
  "Number_js rt JUndefined = NaN"
| "Number_js rt JNull = Fin 0"
| "Number_js rt (JBool b) = Fin (if b then 1 else 0)"
| "Number_js rt (JNum n) = n"
| "Number_js rt (JStr s) = StringToNumber rt s"
| "Number_js rt (JObj r fs) = ObjectToNumber rt r fs"

text \<open>\<open>a || b\<close> and \<open>a ?? b\<close>.\<close>

definition or_js :: "jsval \<Rightarrow> jsval \<Rightarrow> jsval" where
  "or_js a b = (if truthy a then a else b)"

definition nullish :: "jsval \<Rightarrow> bool" where
  "nullish v = (v = JUndefined \<or> v = JNull)"

definition coalesce :: "jsval \<Rightarrow> jsval \<Rightarrow> jsval" where
  "coalesce a b = (if nullish a then b else a)"

text \<open>The order of the numbers; every comparison with NaN is false.\<close>

fun num_le :: "jsnum \<Rightarrow> jsnum \<Rightarrow> bool" where
  "num_le NaN b = False"
| "num_le a NaN = False"
| "num_le NegInf b = True"
| "num_le a PosInf = True"
| "num_le (Fin x) (Fin y) = (x \<le> y)"
| "num_le PosInf b = False"
| "num_le a NegInf = False"

fun num_lt :: "jsnum \<Rightarrow> jsnum \<Rightarrow> bool" where
  "num_lt NaN b = False"
| "num_lt a NaN = False"
| "num_lt (Fin x) (Fin y) = (x < y)"
| "num_lt PosInf b = False"
| "num_lt a NegInf = False"
| "num_lt NegInf b = True"
| "num_lt a PosInf = True"

text \<open>\<open>a >= b\<close> and \<open>a < b\<close> where one operand is a number: both are converted.\<close>

definition ge_js :: "runtime \<Rightarrow> jsval \<Rightarrow> jsval \<Rightarrow> bool" where
  "ge_js rt a b = num_le (Number_js rt b) (Number_js rt a)"

definition lt_js :: "runtime \<Rightarrow> jsval \<Rightarrow> jsval \<Rightarrow> bool" where
  "lt_js rt a b = num_lt (Number_js rt a) (Number_js rt b)"

text \<open>\<open>Math.max(a, b)\<close>: NaN if either argument converts to NaN.\<close>

definition max_num :: "jsnum \<Rightarrow> jsnum \<Rightarrow> jsnum" where
  "max_num a b = (if a = NaN \<or> b = NaN then NaN else if num_le a b then b else a)"

definition Math_max :: "runtime \<Rightarrow> jsval \<Rightarrow> jsval \<Rightarrow> jsval" where
  "Math_max rt a b = JNum (max_num (Number_js rt a) (Number_js rt b))"

text \<open>\<open>a === b\<close>.\<close>

fun strict_eq :: "jsval \<Rightarrow> jsval \<Rightarrow> bool" where
  "strict_eq JUndefined JUndefined = True"
| "strict_eq JNull JNull = True"
| "strict_eq (JBool a) (JBool b) = (a = b)"
| "strict_eq (JNum a) (JNum b) = (a \<noteq> NaN \<and> a = b)"
| "strict_eq (JStr a) (JStr b) = (a = b)"
| "strict_eq (JObj r fs) (JObj r' fs') = (r = r')"
| "strict_eq a b = False"

text \<open>
  \<open>v.k\<close> for a value that is neither undefined nor null: a primitive has none of the
  properties the module reads.
\<close>

fun get_field :: "jsval \<Rightarrow> string \<Rightarrow> jsval" where
  "get_field (JObj r fs) k = (case map_of fs k of Some v \<Rightarrow> v | None \<Rightarrow> JUndefined)"
| "get_field v k = JUndefined"

abbreviation num :: "real \<Rightarrow> jsval" where
  "num x \<equiv> JNum (Fin x)"

section \<open>The brush, presets and drawing data\<close>

text \<open>
  The seven properties the brush shares with the host's drawing data and default drawing
  configuration; the brush adds the stroke style, a preset adds a name to a brush, and
  drawing data has a texture. The dash-pattern flags derived from the stroke style are
  outside every property below and are not part of the records.
\<close>

record strokeFill =
  strokeColor :: jsval
  strokeWidth :: jsval
  strokeAlpha :: jsval
  fillType :: jsval
  fillColor :: jsval
  fillAlpha :: jsval
  bezierFactor :: jsval

record brush_record = strokeFill +
  strokeStyle :: jsval

record preset = brush_record +
  name :: string

record drawingData = strokeFill +
  texture :: jsval

definition DEFAULT_BRUSH :: brush_record where
  "DEFAULT_BRUSH = \<lparr>strokeColor = JStr ''#000000'', strokeWidth = num 8, strokeAlpha = num 1,
     fillType = num 0, fillColor = JStr ''#ffffff'', fillAlpha = num (1/2),
     bezierFactor = num 0, strokeStyle = JStr ''solid''\<rparr>"

subsection \<open>\<open>_validateBrush\<close>\<close>

definition validateBrush :: "runtime \<Rightarrow> brush_record \<Rightarrow> brush_record" where
  "validateBrush rt b =
     b\<lparr>strokeWidth := Math_max rt (num 1) (or_js (JNum (Number_js rt (strokeWidth b))) (num 8)),
       strokeAlpha := Math_max rt (num (1/10)) (or_js (JNum (Number_js rt (strokeAlpha b))) (num 1)),
       strokeColor := or_js (strokeColor b) (JStr ''#000000''),
       fillType := coalesce (JNum (Number_js rt (fillType b))) (num 0),
       fillAlpha := coalesce (JNum (Number_js rt (fillAlpha b))) (num (1/2)),
       fillColor := or_js (fillColor b) (JStr ''#ffffff''),
       bezierFactor := coalesce (JNum (Number_js rt (bezierFactor b))) (num 0),
       strokeStyle := or_js (strokeStyle b) (JStr ''solid'')\<rparr>"

subsection \<open>Applying the brush to a new drawing\<close>

text \<open>
  The \<open>preCreateDrawing\<close> hook: from the brush and the hook's \<open>data\<close> argument it
  builds \<open>updateData\<close>, which it passes to \<open>document.updateSource\<close>.
\<close>

definition preCreateDrawing :: "runtime \<Rightarrow> brush_record \<Rightarrow> drawingData \<Rightarrow> strokeFill" where
  "preCreateDrawing rt b data =
     (let strokeWidth' = Math_max rt (num 1) (or_js (JNum (Number_js rt (strokeWidth b))) (num 8));
          strokeAlpha' = Math_max rt (num (1/10)) (or_js (JNum (Number_js rt (strokeAlpha b))) (num 1));
          fillType0 = coalesce (JNum (Number_js rt (fillType b))) (num 0);
          fillAlpha' = coalesce (JNum (Number_js rt (fillAlpha b))) (num (1/2));
          bezierFactor' = coalesce (JNum (Number_js rt (bezierFactor b))) (num 0);
          fillType' = (if strict_eq fillType0 (num 2) \<and> \<not> truthy (texture data)
                       then num 1 else fillType0)
      in \<lparr>strokeColor = or_js (strokeColor b) (JStr ''#000000''),
          strokeWidth = strokeWidth',
          strokeAlpha = strokeAlpha',
          fillType = fillType',
          fillColor = or_js (fillColor b) (JStr ''#ffffff''),
          fillAlpha = (if ge_js rt fillAlpha' (num 0) then fillAlpha' else num (1/2)),
          bezierFactor = (if ge_js rt bezierFactor' (num 0) then bezierFactor' else num 0)\<rparr>)"

text \<open>
  The \<open>_getNewDrawingData\<close> wrapper of the earlier variant: the data of the wrapped
  method, with the same seven values assigned to it.
\<close>

definition getNewDrawingData :: "runtime \<Rightarrow> brush_record \<Rightarrow> drawingData \<Rightarrow> drawingData" where
  "getNewDrawingData rt b data =
     (let strokeWidth' = Math_max rt (num 1) (or_js (JNum (Number_js rt (strokeWidth b))) (num 8));
          strokeAlpha' = Math_max rt (num (1/10)) (or_js (JNum (Number_js rt (strokeAlpha b))) (num 1));
          fillType0 = coalesce (JNum (Number_js rt (fillType b))) (num 0);
          fillAlpha' = coalesce (JNum (Number_js rt (fillAlpha b))) (num (1/2));
          bezierFactor' = coalesce (JNum (Number_js rt (bezierFactor b))) (num 0);
          fillType' = (if strict_eq fillType0 (num 2) \<and> \<not> truthy (texture data)
                       then num 1 else fillType0)
      in data\<lparr>strokeColor := or_js (strokeColor b) (JStr ''#000000''),
              strokeWidth := strokeWidth',
              strokeAlpha := strokeAlpha',
              fillType := fillType',
              fillColor := or_js (fillColor b) (JStr ''#ffffff''),
              fillAlpha := (if ge_js rt fillAlpha' (num 0) then fillAlpha' else num (1/2)),
              bezierFactor := (if ge_js rt bezierFactor' (num 0) then bezierFactor' else num 0)\<rparr>)"

section \<open>The module state and the synchronisation with the host\<close>

text \<open>
  The module's variables (\<open>brush\<close>, \<open>_selfUpdatingCoreConfig\<close>) and what it reads
  from and writes to the host: the name of the active scene control, the client settings
  \<open>lastBrush\<close>, \<open>presets\<close> (\<open>None\<close> when the stored value is falsy) and
  \<open>palettePosition\<close>, the position of the palette window, and the writes of
  \<open>core.defaultDrawingConfig\<close> the module has issued that have not settled yet.
\<close>

record module_state =
  brush :: brush_record
  selfUpdatingCoreConfig :: bool
  activeControl :: "string option"
  lastBrush :: "brush_record option"
  pendingWrites :: "strokeFill list"
  presets :: "preset list option"
  palettePosition :: jsval
  position :: "jsval \<times> jsval"

datatype error = Rejection string

datatype outcome = Resolved | Rejected error

text \<open>\<open>try { body } catch (e) { handler }\<close> on results.\<close>

definition try_catch :: "error + 'a \<Rightarrow> (error \<Rightarrow> error + 'a) \<Rightarrow> error + 'a" where
  "try_catch body handler = (case body of Inl e \<Rightarrow> handler e | Inr x \<Rightarrow> Inr x)"

text \<open>\<open>await p\<close>: continues with the state when the promise resolves, throws when it rejects.\<close>

definition await :: "outcome \<Rightarrow> 'a \<Rightarrow> error + 'a" where
  "await out st = (case out of Resolved \<Rightarrow> Inr st | Rejected e \<Rightarrow> Inl e)"

definition isDrawingToolActive :: "module_state \<Rightarrow> bool" where
  "isDrawingToolActive st = (activeControl st = Some ''drawings'')"

subsection \<open>\<open>_updateCoreDrawingConfig\<close>, guard variant\<close>

text \<open>The \<open>config\<close> object the function builds from the brush.\<close>

definition coreConfig :: "runtime \<Rightarrow> brush_record \<Rightarrow> strokeFill" where
  "coreConfig rt b =
     (let fillType0 = coalesce (JNum (Number_js rt (fillType b))) (num 0);
          fillType' = (if strict_eq fillType0 (num 2) then num 1 else fillType0)
      in \<lparr>strokeColor = or_js (strokeColor b) (JStr ''#000000''),
          strokeWidth = Math_max rt (num 1) (or_js (strokeWidth b) (num 8)),
          strokeAlpha = Math_max rt (num (1/10)) (or_js (JNum (Number_js rt (strokeAlpha b))) (num 1)),
          fillType = fillType',
          fillColor = or_js (fillColor b) (JStr ''#ffffff''),
          fillAlpha = (if ge_js rt (JNum (Number_js rt (fillAlpha b))) (num 0)
                       then JNum (Number_js rt (fillAlpha b)) else num (1/2)),
          bezierFactor = (if ge_js rt (JNum (Number_js rt (bezierFactor b))) (num 0)
                          then JNum (Number_js rt (bezierFactor b)) else num 0)\<rparr>)"

text \<open>
  The function is asynchronous. Up to its \<open>await\<close> it runs at once: it builds the
  configuration, sets the flag and issues the host write. It resumes when the host's
  promise settles: after a resolution it clears the flag; a rejection is thrown at the
  \<open>await\<close> and caught, and the handler clears the flag and logs. Whatever the event loop
  dispatches between the two halves runs on the state in between.
\<close>

definition updateCoreDrawingConfig_begin :: "runtime \<Rightarrow> module_state \<Rightarrow> module_state" where
  "updateCoreDrawingConfig_begin rt st =
     st\<lparr>selfUpdatingCoreConfig := True,
        pendingWrites := pendingWrites st @ [coreConfig rt (brush st)]\<rparr>"

definition updateCoreDrawingConfig_resume :: "outcome \<Rightarrow> module_state \<Rightarrow> error + module_state" where
  "updateCoreDrawingConfig_resume out st =
     try_catch
       (case await out st of
          Inl e \<Rightarrow> Inl e
        | Inr st' \<Rightarrow> Inr (st'\<lparr>selfUpdatingCoreConfig := False\<rparr>))
       (\<lambda>e. Inr (st\<lparr>selfUpdatingCoreConfig := False\<rparr>))"

text \<open>One call with nothing dispatched in between: the write is the last one issued.\<close>

definition updateCoreDrawingConfig :: "runtime \<Rightarrow> outcome \<Rightarrow> module_state \<Rightarrow> error + module_state" where
  "updateCoreDrawingConfig rt out st =
     (let st1 = updateCoreDrawingConfig_begin rt st
      in updateCoreDrawingConfig_resume out (st1\<lparr>pendingWrites := butlast (pendingWrites st1)\<rparr>))"

subsection \<open>\<open>_updateCoreDrawingConfig\<close>, earlier variant without the guard\<close>

definition coreConfig_noguard :: "runtime \<Rightarrow> brush_record \<Rightarrow> strokeFill" where
  "coreConfig_noguard rt b =
     \<lparr>strokeColor = or_js (strokeColor b) (JStr ''#000000''),
      strokeWidth = Math_max rt (num 1) (or_js (strokeWidth b) (num 8)),
      strokeAlpha = num 1,
      fillType = num 1,
      fillColor = or_js (fillColor b) (JStr ''#ffffff''),
      fillAlpha = num 1,
      bezierFactor = coalesce (bezierFactor b) (num 0)\<rparr>"

definition updateCoreDrawingConfig_noguard_begin :: "runtime \<Rightarrow> module_state \<Rightarrow> module_state" where
  "updateCoreDrawingConfig_noguard_begin rt st =
     st\<lparr>pendingWrites := pendingWrites st @ [coreConfig_noguard rt (brush st)]\<rparr>"

definition updateCoreDrawingConfig_noguard_resume :: "outcome \<Rightarrow> module_state \<Rightarrow> error + module_state" where
  "updateCoreDrawingConfig_noguard_resume out st = try_catch (await out st) (\<lambda>e. Inr st)"

definition updateCoreDrawingConfig_noguard :: "runtime \<Rightarrow> outcome \<Rightarrow> module_state \<Rightarrow> error + module_state" where
  "updateCoreDrawingConfig_noguard rt out st =
     (let st1 = updateCoreDrawingConfig_noguard_begin rt st
      in updateCoreDrawingConfig_noguard_resume out (st1\<lparr>pendingWrites := butlast (pendingWrites st1)\<rparr>))"

subsection \<open>\<open>saveBrushSettings\<close>\<close>

text \<open>
  It stores a copy of the brush as \<open>lastBrush\<close> and calls \<open>_updateCoreDrawingConfig\<close>
  without awaiting it, so it returns when that call reaches its \<open>await\<close>.
\<close>

definition saveBrushSettings :: "runtime \<Rightarrow> module_state \<Rightarrow> module_state" where
  "saveBrushSettings rt st = updateCoreDrawingConfig_begin rt (st\<lparr>lastBrush := Some (brush st)\<rparr>)"

subsection \<open>The \<open>updateSetting\<close> hook\<close>

text \<open>The hook's argument: \<open>val\<close> is its \<open>value\<close> property.\<close>

record setting =
  key :: string
  val :: jsval

fun typeof_js :: "jsval \<Rightarrow> string" where
  "typeof_js JUndefined = ''undefined''"
| "typeof_js JNull = ''object''"
| "typeof_js (JBool b) = ''boolean''"
| "typeof_js (JNum n) = ''number''"
| "typeof_js (JStr s) = ''string''"
| "typeof_js (JObj r fs) = ''object''"

text \<open>The four synchronisation steps of the hook, each returning the brush and \<open>changed\<close>.\<close>

definition syncStrokeColor :: "jsval \<Rightarrow> brush_record \<times> bool \<Rightarrow> brush_record \<times> bool" where
  "syncStrokeColor newConfig bc =
     (let b = fst bc; v = get_field newConfig ''strokeColor''
      in if truthy v \<and> \<not> strict_eq v (strokeColor b) then (b\<lparr>strokeColor := v\<rparr>, True) else bc)"

definition syncStrokeAlpha :: "runtime \<Rightarrow> jsval \<Rightarrow> brush_record \<times> bool \<Rightarrow> brush_record \<times> bool" where
  "syncStrokeAlpha rt newConfig bc =
     (let b = fst bc; v = get_field newConfig ''strokeAlpha''
      in if \<not> strict_eq v JUndefined \<and> \<not> strict_eq v (strokeAlpha b)
         then (b\<lparr>strokeAlpha := Math_max rt (num (1/20)) (or_js (JNum (Number_js rt v)) (num 1))\<rparr>, True)
         else bc)"

definition syncFillColor :: "jsval \<Rightarrow> brush_record \<times> bool \<Rightarrow> brush_record \<times> bool" where
  "syncFillColor newConfig bc =
     (let b = fst bc; v = get_field newConfig ''fillColor''
      in if truthy v \<and> \<not> strict_eq v (fillColor b) then (b\<lparr>fillColor := v\<rparr>, True) else bc)"

definition syncFillAlpha :: "runtime \<Rightarrow> jsval \<Rightarrow> brush_record \<times> bool \<Rightarrow> brush_record \<times> bool" where
  "syncFillAlpha rt newConfig bc =
     (let b = fst bc; v = get_field newConfig ''fillAlpha''
      in if \<not> strict_eq v JUndefined \<and> \<not> strict_eq v (fillAlpha b)
         then (b\<lparr>fillAlpha := Math_max rt (num 0) (or_js (JNum (Number_js rt v)) (num 0))\<rparr>, True)
         else bc)"

definition updateSetting_hook :: "runtime \<Rightarrow> setting \<Rightarrow> module_state \<Rightarrow> module_state" where
  "updateSetting_hook rt s st =
     (if key s \<noteq> ''core.defaultDrawingConfig'' then st
      else if selfUpdatingCoreConfig st then st
      else if \<not> isDrawingToolActive st then st
      else case (case val s of JStr json \<Rightarrow> JSON_parse rt json | v \<Rightarrow> Some v) of
          None \<Rightarrow> st
        | Some newConfig \<Rightarrow>
            if \<not> truthy newConfig then st
            else if typeof_js newConfig \<noteq> ''object'' then st
            else
              (let bc = syncFillAlpha rt newConfig
                          (syncFillColor newConfig
                            (syncStrokeAlpha rt newConfig
                              (syncStrokeColor newConfig (brush st, False))))
               in if snd bc then saveBrushSettings rt (st\<lparr>brush := fst bc\<rparr>) else st))"

subsection \<open>The palette action \<open>pickStrokeColor\<close>\<close>

text \<open>\<open>color\<close> is \<open>target.dataset.color\<close>, \<open>None\<close> when the attribute is missing.\<close>

definition pickStrokeColor :: "runtime \<Rightarrow> string option \<Rightarrow> module_state \<Rightarrow> module_state" where
  "pickStrokeColor rt color st =
     (case color of
        None \<Rightarrow> st
      | Some c \<Rightarrow>
          if c = [] then st
          else saveBrushSettings rt (st\<lparr>brush := (brush st)\<lparr>strokeColor := JStr c\<rparr>\<rparr>))"

subsection \<open>What the event loop dispatches\<close>

text \<open>
  The events that touch the guard: a caller saves the brush (every input handler and
  action of the palette does, without awaiting), the user picks a stroke colour from a
  swatch, the host write at a position of the pending list settles and its call
  resumes, or the host calls the \<open>updateSetting\<close> hook.
\<close>

datatype event =
    SaveBrush
  | PickStrokeColor "string option"
  | Settle nat outcome
  | UpdateSetting setting

definition remove_nth :: "nat \<Rightarrow> 'a list \<Rightarrow> 'a list" where
  "remove_nth i xs = take i xs @ drop (Suc i) xs"

fun step :: "runtime \<Rightarrow> module_state \<Rightarrow> event \<Rightarrow> module_state" where
  "step rt st SaveBrush = saveBrushSettings rt st"
| "step rt st (PickStrokeColor color) = pickStrokeColor rt color st"
| "step rt st (Settle i out) =
     (if i < length (pendingWrites st)
      then (case updateCoreDrawingConfig_resume out
                   (st\<lparr>pendingWrites := remove_nth i (pendingWrites st)\<rparr>) of
              Inr st' \<Rightarrow> st'
            | Inl e \<Rightarrow> st\<lparr>pendingWrites := remove_nth i (pendingWrites st)\<rparr>)
      else st)"
| "step rt st (UpdateSetting s) = updateSetting_hook rt s st"

definition run :: "runtime \<Rightarrow> module_state \<Rightarrow> event list \<Rightarrow> module_state" where
  "run rt st evs = foldl (step rt) st evs"

text \<open>The setting the host reports after a write of the configuration \<open>c\<close>.\<close>

definition configSetting :: "strokeFill \<Rightarrow> setting" where
  "configSetting c =
     \<lparr>key = ''core.defaultDrawingConfig'',
      val = JObj 0 [(''strokeColor'', strokeColor c), (''strokeWidth'', strokeWidth c),
                    (''strokeAlpha'', strokeAlpha c), (''fillType'', fillType c),
                    (''fillColor'', fillColor c), (''fillAlpha'', fillAlpha c),
                    (''bezierFactor'', bezierFactor c)]\<rparr>"

section \<open>Presets\<close>

definition getPresets :: "module_state \<Rightarrow> preset list" where
  "getPresets st = (case presets st of Some ps \<Rightarrow> ps | None \<Rightarrow> [])"

definition savePresets :: "preset list \<Rightarrow> module_state \<Rightarrow> module_state" where
  "savePresets ps st = st\<lparr>presets := Some ps\<rparr>"

text \<open>
  \<open>presets[index]\<close>, where \<open>index\<close> is the result of \<open>parseInt\<close>: an integer, or
  NaN (\<open>None\<close>). Outside the array the read gives undefined (\<open>None\<close>).
\<close>

definition at_index :: "'a list \<Rightarrow> int option \<Rightarrow> 'a option" where
  "at_index xs index =
     (case index of
        None \<Rightarrow> None
      | Some i \<Rightarrow> if 0 \<le> i \<and> i < int (length xs) then Some (xs ! nat i) else None)"

text \<open>
  The array after \<open>presets.splice(index, 1)\<close>: NaN counts as 0, a negative start counts
  from the end, and the start and the count are clamped to the array.
\<close>

definition splice1 :: "int option \<Rightarrow> 'a list \<Rightarrow> 'a list" where
  "splice1 index xs =
     (let len = int (length xs);
          relativeStart = (case index of None \<Rightarrow> 0 | Some i \<Rightarrow> i);
          actualStart = (if relativeStart < 0 then max (len + relativeStart) 0
                         else min relativeStart len);
          actualDeleteCount = min (max 1 0) (len - actualStart)
      in take (nat actualStart) xs @ drop (nat (actualStart + actualDeleteCount)) xs)"

text \<open>
  \<open>String.prototype.trim\<close> on strings of code units below 256: the white space and
  line terminators there are tab, line feed, vertical tab, form feed, carriage return,
  space and the no-break space.
\<close>

definition isWhiteSpace :: "char \<Rightarrow> bool" where
  "isWhiteSpace c = (of_char c \<in> {9, 10, 11, 12, 13, 32, 160 :: nat})"

definition trim :: "string \<Rightarrow> string" where
  "trim s = rev (dropWhile isWhiteSpace (rev (dropWhile isWhiteSpace s)))"

definition loadPreset :: "runtime \<Rightarrow> int option \<Rightarrow> module_state \<Rightarrow> module_state" where
  "loadPreset rt index st =
     (case at_index (getPresets st) index of
        None \<Rightarrow> st
      | Some p \<Rightarrow>
          (let b = brush st;
               b' = b\<lparr>strokeColor := coalesce (strokeColor p) (strokeColor b),
                      strokeWidth := coalesce (strokeWidth p) (strokeWidth b),
                      strokeAlpha := coalesce (strokeAlpha p) (strokeAlpha b),
                      fillType := coalesce (fillType p) (fillType b),
                      fillColor := coalesce (fillColor p) (fillColor b),
                      fillAlpha := coalesce (fillAlpha p) (fillAlpha b),
                      bezierFactor := coalesce (bezierFactor p) (bezierFactor b),
                      strokeStyle := coalesce (strokeStyle p) (strokeStyle b)\<rparr>
           in saveBrushSettings rt (st\<lparr>brush := b'\<rparr>)))"

definition deletePreset :: "int option \<Rightarrow> module_state \<Rightarrow> module_state" where
  "deletePreset index st = savePresets (splice1 index (getPresets st)) st"

text \<open>
  \<open>nameInput\<close> is the value of the name field, \<open>None\<close> when the element is not found;
  then \<open>name\<close> is undefined and the action returns as for an empty name.
\<close>

definition savePreset :: "string option \<Rightarrow> module_state \<Rightarrow> module_state" where
  "savePreset nameInput st =
     (case map_option trim nameInput of
        None \<Rightarrow> st
      | Some name' \<Rightarrow>
          if name' = [] then st
          else
            (let b = brush st;
                 p = \<lparr>strokeColor = strokeColor b, strokeWidth = strokeWidth b,
                      strokeAlpha = strokeAlpha b, fillType = fillType b,
                      fillColor = fillColor b, fillAlpha = fillAlpha b,
                      bezierFactor = bezierFactor b, strokeStyle = strokeStyle b,
                      name = name'\<rparr>
             in savePresets (getPresets st @ [p]) st))"

section \<open>The palette position\<close>

text \<open>\<open>vw\<close> and \<open>vh\<close> are \<open>window.innerWidth\<close> and \<open>window.innerHeight\<close>.\<close>

definition isPositionInViewport :: "runtime \<Rightarrow> real \<Rightarrow> real \<Rightarrow> jsval \<Rightarrow> bool" where
  "isPositionInViewport rt vw vh pos =
     (let margin = 50
      in ge_js rt (get_field pos ''left'') (num (- margin)) \<and>
         ge_js rt (get_field pos ''top'') (num (- margin)) \<and>
         lt_js rt (get_field pos ''left'') (num (vw - margin)) \<and>
         lt_js rt (get_field pos ''top'') (num (vh - margin)))"

text \<open>The part of \<open>_onRender\<close> that restores the position.\<close>

definition onRender :: "runtime \<Rightarrow> real \<Rightarrow> real \<Rightarrow> module_state \<Rightarrow> module_state" where
  "onRender rt vw vh st =
     (let savedPos = palettePosition st
      in if truthy savedPos \<and> isPositionInViewport rt vw vh savedPos
         then st\<lparr>position := (get_field savedPos ''left'', get_field savedPos ''top'')\<rparr>
         else st)"

section \<open>Notions used by the properties\<close>

text \<open>A value is a number and at least \<open>c\<close>; NaN is not.\<close>

definition number_ge :: "jsval \<Rightarrow> real \<Rightarrow> bool" where
  "number_ge v c = (case v of JNum x \<Rightarrow> num_le (Fin c) x | _ \<Rightarrow> False)"

text \<open>
  The constraints on the values applied to a new drawing, for drawing data whose texture
  is \<open>tex\<close>.
\<close>

definition hostValid :: "'a strokeFill_scheme \<Rightarrow> jsval \<Rightarrow> bool" where
  "hostValid d tex =
     (number_ge (strokeWidth d) 1 \<and>
      number_ge (strokeAlpha d) (1/10) \<and>
      (fillType d = num 2 \<longrightarrow> truthy tex) \<and>
      number_ge (fillAlpha d) 0 \<and>
      number_ge (bezierFactor d) 0)"

text \<open>The four brush fields the \<open>updateSetting\<close> hook does not synchronise are the same.\<close>

definition unsyncedFieldsKept :: "brush_record \<Rightarrow> brush_record \<Rightarrow> bool" where
  "unsyncedFieldsKept b b' =
     (strokeWidth b' = strokeWidth b \<and> strokeStyle b' = strokeStyle b \<and>
      fillType b' = fillType b \<and> bezierFactor b' = bezierFactor b)"

text \<open>The preset that is the brush \<open>b\<close> under the name \<open>nm\<close>.\<close>

definition snapshot :: "string \<Rightarrow> brush_record \<Rightarrow> preset" where
  "snapshot nm b = brush_record.extend b (preset.fields nm)"

text \<open>A brush field of a preset is present when \<open>??\<close> takes it: neither undefined nor null.\<close>

definition allFieldsPresent :: "preset \<Rightarrow> bool" where
  "allFieldsPresent p =
     (\<not> nullish (strokeColor p) \<and> \<not> nullish (strokeWidth p) \<and>
      \<not> nullish (strokeAlpha p) \<and> \<not> nullish (strokeStyle p) \<and>
      \<not> nullish (fillType p) \<and> \<not> nullish (fillColor p) \<and>
      \<not> nullish (fillAlpha p) \<and> \<not> nullish (bezierFactor p))"

text \<open>
  The specification's words for the palette position: the coordinate lies inside the
  visible viewport, the rectangle from the origin to the inner width and height.
\<close>

definition insideVisibleViewport :: "real \<Rightarrow> real \<Rightarrow> real \<Rightarrow> real \<Rightarrow> bool" where
  "insideVisibleViewport vw vh x y = (0 \<le> x \<and> x < vw \<and> 0 \<le> y \<and> y < vh)"

subsection \<open>Concrete data\<close>

text \<open>A runtime in which no string and no object converts to a number or parses.\<close>

definition rt0 :: runtime where
  "rt0 = \<lparr>StringToNumber = (\<lambda>s. NaN), ObjectToNumber = (\<lambda>r fs. NaN),
          JSON_parse = (\<lambda>s. None)\<rparr>"

definition mkPreset ::
  "string \<Rightarrow> string \<Rightarrow> real \<Rightarrow> real \<Rightarrow> string \<Rightarrow> real \<Rightarrow> string \<Rightarrow> real \<Rightarrow> real \<Rightarrow> preset" where
  "mkPreset nm sc sw sa ss ft fc fa bf =
     \<lparr>strokeColor = JStr sc, strokeWidth = num sw, strokeAlpha = num sa, fillType = num ft,
      fillColor = JStr fc, fillAlpha = num fa, bezierFactor = num bf, strokeStyle = JStr ss,
      name = nm\<rparr>"

definition DEFAULT_PRESETS :: "preset list" where
  "DEFAULT_PRESETS =
     [mkPreset ''Fine Pen'' ''#000000'' 2 1 ''solid'' 0 ''#ffffff'' (1/2) (3/10),
      mkPreset ''Marker'' ''#ff0000'' 8 1 ''solid'' 0 ''#ffffff'' (1/2) (2/10),
      mkPreset ''Highlighter'' ''#ffff00'' 20 (4/10) ''solid'' 0 ''#ffffff'' (1/2) (1/10),
      mkPreset ''Thick Outline'' ''#000000'' 4 1 ''solid'' 1 ''#4488ff'' (3/10) (1/4),
      mkPreset ''Area Fill'' ''#228822'' 2 1 ''dashed'' 1 ''#88ff88'' (1/2) 0,
      mkPreset ''Danger Zone'' ''#cc0000'' 3 1 ''dotted'' 1 ''#ff4444'' (4/10) 0]"

text \<open>
  The module after start-up with the drawing tools active: the default brush and
  presets, no saved position, the palette window at (100, 100).
\<close>

definition exampleState :: module_state where
  "exampleState =
     \<lparr>brush = DEFAULT_BRUSH, selfUpdatingCoreConfig = False,
      activeControl = Some ''drawings'', lastBrush = None, pendingWrites = [],
      presets = Some DEFAULT_PRESETS, palettePosition = JNull,
      position = (num 100, num 100)\<rparr>"

text \<open>The same with the stroke opacity at the lowest value the palette's slider gives.\<close>

definition faintBrushState :: module_state where
  "faintBrushState = exampleState\<lparr>brush := DEFAULT_BRUSH\<lparr>strokeAlpha := num (1/20)\<rparr>\<rparr>"

text \<open>Drawing data as the host hands it over, without a texture and with one.\<close>

definition hostData :: drawingData where
  "hostData =
     \<lparr>strokeColor = JStr ''#ffffff'', strokeWidth = num 8, strokeAlpha = num 1,
      fillType = num 0, fillColor = JStr ''#ffffff'', fillAlpha = num (1/2),
      bezierFactor = num 0, texture = JUndefined\<rparr>"

definition texturedData :: drawingData where
  "texturedData = hostData\<lparr>texture := JStr ''tiles/stone.webp''\<rparr>"

section \<open>Properties\<close>

subsection \<open>Clamping and defaults\<close>

lemma coalesce_JNum: "coalesce (JNum n) d = JNum n"
  by (simp add: coalesce_def nullish_def)

lemma clamp_or_ge:
  "c \<le> d \<Longrightarrow> d \<noteq> 0 \<Longrightarrow> number_ge (Math_max rt (num c) (or_js (JNum n) (num d))) c"
  by (cases n) (auto simp: number_ge_def Math_max_def max_num_def or_js_def)

lemma nonneg_or_default:
  "0 \<le> d \<Longrightarrow> number_ge (if ge_js rt (JNum n) (num 0) then JNum n else num d) 0"
  by (cases n) (auto simp: number_ge_def ge_js_def)

lemma preCreateDrawing_valid: "hostValid (preCreateDrawing rt b data) (texture data)"
proof -
  let ?d = "preCreateDrawing rt b data"
  have sw: "number_ge (strokeWidth ?d) 1"
    by (simp add: preCreateDrawing_def Let_def clamp_or_ge)
  have sa: "number_ge (strokeAlpha ?d) (1/10)"
    by (simp add: preCreateDrawing_def Let_def clamp_or_ge)
  have ft: "fillType ?d = num 2 \<longrightarrow> truthy (texture data)"
    by (cases "Number_js rt (fillType b)")
       (auto simp: preCreateDrawing_def Let_def coalesce_JNum)
  have fa: "number_ge (fillAlpha ?d) 0"
    by (simp add: preCreateDrawing_def Let_def coalesce_JNum nonneg_or_default split del: if_split)
  have bf: "number_ge (bezierFactor ?d) 0"
    by (simp add: preCreateDrawing_def Let_def coalesce_JNum nonneg_or_default split del: if_split)
  from sw sa ft fa bf show ?thesis by (simp add: hostValid_def)
qed

lemma getNewDrawingData_texture: "texture (getNewDrawingData rt b data) = texture data"
  by (simp add: getNewDrawingData_def Let_def)

lemma getNewDrawingData_valid: "hostValid (getNewDrawingData rt b data) (texture data)"
proof -
  let ?d = "getNewDrawingData rt b data"
  have sw: "number_ge (strokeWidth ?d) 1"
    by (simp add: getNewDrawingData_def Let_def clamp_or_ge)
  have sa: "number_ge (strokeAlpha ?d) (1/10)"
    by (simp add: getNewDrawingData_def Let_def clamp_or_ge)
  have ft: "fillType ?d = num 2 \<longrightarrow> truthy (texture data)"
    by (cases "Number_js rt (fillType b)")
       (auto simp: getNewDrawingData_def Let_def coalesce_JNum)
  have fa: "number_ge (fillAlpha ?d) 0"
    by (simp add: getNewDrawingData_def Let_def coalesce_JNum nonneg_or_default split del: if_split)
  have bf: "number_ge (bezierFactor ?d) 0"
    by (simp add: getNewDrawingData_def Let_def coalesce_JNum nonneg_or_default split del: if_split)
  from sw sa ft fa bf show ?thesis by (simp add: hostValid_def)
qed

text \<open>
  C2: for every brush, whatever its fields hold, the values applied to a new drawing
  satisfy the host's constraints, in the \<open>preCreateDrawing\<close> hook and in the
  \<open>_getNewDrawingData\<close> wrapper: the stroke width is a number of at least 1, the stroke
  opacity a number of at least 0.1, the fill type is 2 only if the drawing data has a
  texture, and the fill opacity and the bezier factor are numbers of at least 0.
\<close>

theorem C2_applied_drawing_data_valid:
  "hostValid (preCreateDrawing rt b data) (texture data) \<and>
   hostValid (getNewDrawingData rt b data) (texture (getNewDrawingData rt b data))"
  by (simp add: preCreateDrawing_valid getNewDrawingData_valid getNewDrawingData_texture)

theorem C2_applied_drawing_data_valid_witness:
  "fillType (preCreateDrawing rt0 (DEFAULT_BRUSH\<lparr>fillType := num 2\<rparr>) texturedData) = num 2 \<and>
   truthy (texture texturedData) \<and>
   hostValid (preCreateDrawing rt0 (DEFAULT_BRUSH\<lparr>fillType := num 2\<rparr>) texturedData)
     (texture texturedData) \<and>
   fillType (getNewDrawingData rt0 (DEFAULT_BRUSH\<lparr>fillType := num 2, strokeWidth := JStr ''wide''\<rparr>)
     hostData) = num 1 \<and>
   strokeWidth (getNewDrawingData rt0 (DEFAULT_BRUSH\<lparr>fillType := num 2, strokeWidth := JStr ''wide''\<rparr>)
     hostData) = num 8 \<and>
   hostValid (getNewDrawingData rt0 (DEFAULT_BRUSH\<lparr>fillType := num 2, strokeWidth := JStr ''wide''\<rparr>)
     hostData) (texture hostData)"
  using C2_applied_drawing_data_valid [of rt0 "DEFAULT_BRUSH\<lparr>fillType := num 2\<rparr>" texturedData]
        C2_applied_drawing_data_valid [of rt0
          "DEFAULT_BRUSH\<lparr>fillType := num 2, strokeWidth := JStr ''wide''\<rparr>" hostData]
  by (simp add: preCreateDrawing_def getNewDrawingData_def Let_def coalesce_JNum texturedData_def
      hostData_def DEFAULT_BRUSH_def rt0_def or_js_def Math_max_def max_num_def)

text \<open>What \<open>_validateBrush\<close> does establish: the two stroke bounds.\<close>

lemma validateBrush_stroke:
  "number_ge (strokeWidth (validateBrush rt b)) 1 \<and>
   number_ge (strokeAlpha (validateBrush rt b)) (1/10)"
  by (simp add: validateBrush_def clamp_or_ge)

text \<open>
  C3: after \<open>_validateBrush\<close> the fill opacity and the bezier factor are valid numbers
  within their ranges, for every prior brush. The code does not establish it: the
  default after \<open>??\<close> is never taken, since \<open>Number\<close> returns no undefined or null.
  With the fill opacity missing from the default brush, the validated brush has NaN there.
\<close>

theorem C3_validateBrush_keeps_NaN:
  "validateBrush rt0 (DEFAULT_BRUSH\<lparr>fillAlpha := JUndefined\<rparr>)
     = DEFAULT_BRUSH\<lparr>fillAlpha := JNum NaN\<rparr> \<and>
   \<not> number_ge (fillAlpha (validateBrush rt0 (DEFAULT_BRUSH\<lparr>fillAlpha := JUndefined\<rparr>))) 0"
  by (simp add: validateBrush_def DEFAULT_BRUSH_def or_js_def Math_max_def max_num_def
      coalesce_JNum number_ge_def)

text \<open>The defaults the hook does substitute for a field that converts to NaN.\<close>

lemma preCreateDrawing_defaults:
  "(Number_js rt (strokeWidth b) = NaN \<longrightarrow> strokeWidth (preCreateDrawing rt b data) = num 8) \<and>
   (Number_js rt (strokeAlpha b) = NaN \<longrightarrow> strokeAlpha (preCreateDrawing rt b data) = num 1) \<and>
   (Number_js rt (fillAlpha b) = NaN \<longrightarrow> fillAlpha (preCreateDrawing rt b data) = num (1/2)) \<and>
   (Number_js rt (bezierFactor b) = NaN \<longrightarrow> bezierFactor (preCreateDrawing rt b data) = num 0) \<and>
   (\<not> truthy (strokeColor b) \<longrightarrow> strokeColor (preCreateDrawing rt b data) = JStr ''#000000'') \<and>
   (\<not> truthy (fillColor b) \<longrightarrow> fillColor (preCreateDrawing rt b data) = JStr ''#ffffff'')"
  by (simp add: preCreateDrawing_def Let_def coalesce_JNum Math_max_def max_num_def ge_js_def
      or_js_def)

text \<open>
  C4: a brush field that is not a number after conversion is replaced by its default
  in the values applied to a new drawing. For the fill type the code does not do it:
  with the fill type missing from the default brush, the hook and the wrapper apply NaN,
  not 0.
\<close>

theorem C4_fillType_not_defaulted:
  "fillType (preCreateDrawing rt0 (DEFAULT_BRUSH\<lparr>fillType := JUndefined\<rparr>) hostData) = JNum NaN \<and>
   fillType (getNewDrawingData rt0 (DEFAULT_BRUSH\<lparr>fillType := JUndefined\<rparr>) hostData) = JNum NaN"
  by (simp add: preCreateDrawing_def getNewDrawingData_def Let_def coalesce_JNum)

subsection \<open>The guard and the host write\<close>

lemma hook_ignores_while_flag:
  "selfUpdatingCoreConfig st \<Longrightarrow> updateSetting_hook rt s st = st"
  by (simp add: updateSetting_hook_def)

lemma notifications_during_write:
  "selfUpdatingCoreConfig st \<Longrightarrow> run rt st (map UpdateSetting ss) = st"
  by (induction ss) (simp_all add: run_def hook_ignores_while_flag)

text \<open>
  A write with no other write of the module in flight: the flag is set when the write
  is issued, every notification that arrives before it settles leaves the whole state as
  it is, and when it settles, either way, the flag is clear and the brush is the same.
\<close>

lemma isolated_write:
  "selfUpdatingCoreConfig (updateCoreDrawingConfig_begin rt st) \<and>
   run rt (updateCoreDrawingConfig_begin rt st) (map UpdateSetting ss)
     = updateCoreDrawingConfig_begin rt st \<and>
   \<not> selfUpdatingCoreConfig
       (step rt (updateCoreDrawingConfig_begin rt st) (Settle (length (pendingWrites st)) out)) \<and>
   brush (step rt (updateCoreDrawingConfig_begin rt st) (Settle (length (pendingWrites st)) out))
     = brush st"
proof -
  have f: "selfUpdatingCoreConfig (updateCoreDrawingConfig_begin rt st)"
    by (simp add: updateCoreDrawingConfig_begin_def)
  have s: "\<not> selfUpdatingCoreConfig
       (step rt (updateCoreDrawingConfig_begin rt st) (Settle (length (pendingWrites st)) out)) \<and>
     brush (step rt (updateCoreDrawingConfig_begin rt st) (Settle (length (pendingWrites st)) out))
       = brush st"
    by (cases out)
       (simp_all add: updateCoreDrawingConfig_begin_def updateCoreDrawingConfig_resume_def
          try_catch_def await_def)
  show ?thesis using f s notifications_during_write [OF f] by simp
qed

text \<open>
  C1: while the module's own write of \<open>core.defaultDrawingConfig\<close> is in flight the
  guard flag is set, and the hook leaves the brush alone. The code loses it when two
  writes overlap. With the stroke opacity at 0.05 the brush is saved, and before that
  write settles the user picks the stroke colour red, which saves again; the first write
  resolves and clears the flag while the second is still pending; the notification of
  the second write, the module's own, then passes the guard and raises the stroke
  opacity of the brush from 0.05 to the 0.1 that was written.
\<close>

theorem C1_guard_cleared_by_earlier_write:
  "\<not> selfUpdatingCoreConfig
       (run rt0 faintBrushState [SaveBrush, PickStrokeColor (Some ''#ff0000''), Settle 0 Resolved]) \<and>
   pendingWrites
       (run rt0 faintBrushState [SaveBrush, PickStrokeColor (Some ''#ff0000''), Settle 0 Resolved])
     = [(coreConfig rt0 (brush faintBrushState))\<lparr>strokeColor := JStr ''#ff0000''\<rparr>] \<and>
   strokeAlpha (brush
       (run rt0 faintBrushState [SaveBrush, PickStrokeColor (Some ''#ff0000''), Settle 0 Resolved]))
     = num (1/20) \<and>
   strokeAlpha (brush
       (run rt0 faintBrushState
          [SaveBrush, PickStrokeColor (Some ''#ff0000''), Settle 0 Resolved,
           UpdateSetting (configSetting
             ((coreConfig rt0 (brush faintBrushState))\<lparr>strokeColor := JStr ''#ff0000''\<rparr>))]))
     = num (1/10)"
  by (simp add: run_def faintBrushState_def exampleState_def saveBrushSettings_def
      pickStrokeColor_def updateCoreDrawingConfig_begin_def updateCoreDrawingConfig_resume_def
      try_catch_def await_def remove_nth_def coreConfig_def ge_js_def coalesce_JNum
      configSetting_def updateSetting_hook_def isDrawingToolActive_def syncStrokeColor_def
      syncStrokeAlpha_def syncFillColor_def syncFillAlpha_def Let_def DEFAULT_BRUSH_def
      or_js_def Math_max_def max_num_def)

text \<open>
  C5: when the host's write of \<open>core.defaultDrawingConfig\<close> rejects,
  \<open>_updateCoreDrawingConfig\<close> completes normally, the brush is the one before, and in
  the guard variant the flag is clear: for the whole call, for its resumption in any
  state, and for both variants.
\<close>

theorem C5_rejection_swallowed:
  "(case updateCoreDrawingConfig rt (Rejected e) st of
      Inl err \<Rightarrow> False
    | Inr st' \<Rightarrow> brush st' = brush st \<and> \<not> selfUpdatingCoreConfig st') \<and>
   (case updateCoreDrawingConfig_resume (Rejected e) st of
      Inl err \<Rightarrow> False
    | Inr st' \<Rightarrow> brush st' = brush st \<and> \<not> selfUpdatingCoreConfig st') \<and>
   (case updateCoreDrawingConfig_noguard rt (Rejected e) st of
      Inl err \<Rightarrow> False
    | Inr st' \<Rightarrow> brush st' = brush st) \<and>
   (case updateCoreDrawingConfig_noguard_resume (Rejected e) st of
      Inl err \<Rightarrow> False
    | Inr st' \<Rightarrow> brush st' = brush st)"
  by (simp add: updateCoreDrawingConfig_def updateCoreDrawingConfig_resume_def
      updateCoreDrawingConfig_begin_def updateCoreDrawingConfig_noguard_def
      updateCoreDrawingConfig_noguard_resume_def updateCoreDrawingConfig_noguard_begin_def
      try_catch_def await_def Let_def)

theorem C5_rejection_swallowed_witness:
  "updateCoreDrawingConfig rt0 (Rejected (Rejection ''offline'')) exampleState = Inr exampleState \<and>
   updateCoreDrawingConfig_noguard rt0 (Rejected (Rejection ''offline'')) exampleState
     = Inr exampleState"
  using C5_rejection_swallowed [where rt = rt0 and e = "Rejection ''offline''" and st = exampleState]
  by (simp add: updateCoreDrawingConfig_def updateCoreDrawingConfig_resume_def
      updateCoreDrawingConfig_begin_def updateCoreDrawingConfig_noguard_def
      updateCoreDrawingConfig_noguard_resume_def updateCoreDrawingConfig_noguard_begin_def
      try_catch_def await_def Let_def exampleState_def)

subsection \<open>The frame of the \<open>updateSetting\<close> hook\<close>

lemma unsyncedFieldsKept_refl: "unsyncedFieldsKept b b"
  by (simp add: unsyncedFieldsKept_def)

lemma kept_syncStrokeColor:
  "unsyncedFieldsKept b (fst bc) \<Longrightarrow> unsyncedFieldsKept b (fst (syncStrokeColor c bc))"
  by (simp add: syncStrokeColor_def Let_def unsyncedFieldsKept_def)

lemma kept_syncStrokeAlpha:
  "unsyncedFieldsKept b (fst bc) \<Longrightarrow> unsyncedFieldsKept b (fst (syncStrokeAlpha rt c bc))"
  by (simp add: syncStrokeAlpha_def Let_def unsyncedFieldsKept_def)

lemma kept_syncFillColor:
  "unsyncedFieldsKept b (fst bc) \<Longrightarrow> unsyncedFieldsKept b (fst (syncFillColor c bc))"
  by (simp add: syncFillColor_def Let_def unsyncedFieldsKept_def)

lemma kept_syncFillAlpha:
  "unsyncedFieldsKept b (fst bc) \<Longrightarrow> unsyncedFieldsKept b (fst (syncFillAlpha rt c bc))"
  by (simp add: syncFillAlpha_def Let_def unsyncedFieldsKept_def)

lemma kept_sync_all:
  "unsyncedFieldsKept b
     (fst (syncFillAlpha rt c (syncFillColor c (syncStrokeAlpha rt c (syncStrokeColor c (b, False))))))"
  by (intro kept_syncFillAlpha kept_syncFillColor kept_syncStrokeAlpha kept_syncStrokeColor)
     (simp add: unsyncedFieldsKept_refl)

lemma brush_saveBrushSettings: "brush (saveBrushSettings rt st) = brush st"
  by (simp add: saveBrushSettings_def updateCoreDrawingConfig_begin_def)

text \<open>
  C9: whatever the setting of a notification holds, the \<open>updateSetting\<close> hook leaves
  the stroke width, the stroke style, the fill type and the bezier factor of the brush
  as they are.
\<close>

theorem C9_hook_keeps_unsynced_fields:
  "unsyncedFieldsKept (brush st) (brush (updateSetting_hook rt s st))"
  using kept_sync_all [of "brush st" rt]
  by (auto simp: updateSetting_hook_def Let_def brush_saveBrushSettings unsyncedFieldsKept_refl
           split: option.splits jsval.splits)

theorem C9_hook_keeps_unsynced_fields_witness:
  "brush (updateSetting_hook rt0
      \<lparr>key = ''core.defaultDrawingConfig'',
       val = JObj 7 [(''strokeColor'', JStr ''#ff0000''), (''strokeWidth'', num 40),
                     (''fillType'', num 2), (''bezierFactor'', num (1/2))]\<rparr> exampleState)
     = DEFAULT_BRUSH\<lparr>strokeColor := JStr ''#ff0000''\<rparr> \<and>
   unsyncedFieldsKept (brush exampleState)
     (brush (updateSetting_hook rt0
      \<lparr>key = ''core.defaultDrawingConfig'',
       val = JObj 7 [(''strokeColor'', JStr ''#ff0000''), (''strokeWidth'', num 40),
                     (''fillType'', num 2), (''bezierFactor'', num (1/2))]\<rparr> exampleState))"
  using C9_hook_keeps_unsynced_fields [where st = exampleState and rt = rt0 and s =
      "\<lparr>key = ''core.defaultDrawingConfig'',
        val = JObj 7 [(''strokeColor'', JStr ''#ff0000''), (''strokeWidth'', num 40),
                      (''fillType'', num 2), (''bezierFactor'', num (1/2))]\<rparr>"]
  by (simp add: updateSetting_hook_def isDrawingToolActive_def exampleState_def
      syncStrokeColor_def syncStrokeAlpha_def syncFillColor_def syncFillAlpha_def Let_def
      saveBrushSettings_def updateCoreDrawingConfig_begin_def DEFAULT_BRUSH_def)

subsection \<open>Presets\<close>

lemma snapshot_fields:
  "snapshot nm b =
     \<lparr>strokeColor = strokeColor b, strokeWidth = strokeWidth b, strokeAlpha = strokeAlpha b,
      fillType = fillType b, fillColor = fillColor b, fillAlpha = fillAlpha b,
      bezierFactor = bezierFactor b, strokeStyle = strokeStyle b, name = nm\<rparr>"
  by (simp add: snapshot_def brush_record.defs preset.defs)

lemma savePreset_named:
  "trim nm \<noteq> [] \<Longrightarrow>
     getPresets (savePreset (Some nm) st) = getPresets st @ [snapshot (trim nm) (brush st)]"
  by (simp add: savePreset_def Let_def savePresets_def getPresets_def snapshot_fields)

lemma savePreset_unnamed: "trim nm = [] \<Longrightarrow> savePreset (Some nm) st = st"
  by (simp add: savePreset_def)

lemma trim_Marker: "trim '' Marker '' = ''Marker''"
  by (simp add: trim_def isWhiteSpace_def)

lemma trim_blank: "trim ''   '' = []"
  by (simp add: trim_def isWhiteSpace_def)

text \<open>
  C6: for every preset list and every name that is not empty after trimming, saving a
  preset gives the old list, unchanged and in its order, followed by the snapshot of the
  current brush under the trimmed name, whether or not that name is already in the
  list; for a name that is empty after trimming the state, and so the list, is unchanged.
\<close>

theorem C6_savePreset_appends:
  "(trim nm \<noteq> [] \<longrightarrow>
      getPresets (savePreset (Some nm) st) = getPresets st @ [snapshot (trim nm) (brush st)]) \<and>
   (trim nm = [] \<longrightarrow> savePreset (Some nm) st = st)"
  by (simp add: savePreset_named savePreset_unnamed)

theorem C6_savePreset_appends_witness:
  "trim '' Marker '' \<noteq> [] \<and>
   getPresets (savePreset (Some '' Marker '') exampleState)
     = DEFAULT_PRESETS @ [snapshot ''Marker'' DEFAULT_BRUSH] \<and>
   name (DEFAULT_PRESETS ! 1) = ''Marker'' \<and>
   trim ''   '' = [] \<and>
   savePreset (Some ''   '') exampleState = exampleState"
  using C6_savePreset_appends [where nm = "'' Marker ''" and st = exampleState]
        C6_savePreset_appends [where nm = "''   ''" and st = exampleState]
  by (simp add: trim_Marker trim_blank)
     (simp add: exampleState_def getPresets_def DEFAULT_PRESETS_def mkPreset_def)

lemma splice1_in_range:
  "0 \<le> i \<Longrightarrow> i < int (length xs) \<Longrightarrow>
     splice1 (Some i) xs = take (nat i) xs @ drop (Suc (nat i)) xs"
  by (simp add: splice1_def Let_def nat_add_distrib)

text \<open>
  C7: for every preset list and every index \<open>i\<close> from 0 below its length, deleting
  preset \<open>i\<close> gives the list without the element at \<open>i\<close>: one shorter, the same
  before \<open>i\<close>, and from \<open>i\<close> on the elements that followed, in their order.
\<close>

theorem C7_deletePreset_removes_index:
  assumes "0 \<le> i" and "i < int (length (getPresets st))"
  shows "getPresets (deletePreset (Some i) st)
           = take (nat i) (getPresets st) @ drop (Suc (nat i)) (getPresets st) \<and>
         length (getPresets (deletePreset (Some i) st)) = length (getPresets st) - 1 \<and>
         (\<forall>j. j < nat i \<longrightarrow>
              getPresets (deletePreset (Some i) st) ! j = getPresets st ! j) \<and>
         (\<forall>j. nat i \<le> j \<and> j < length (getPresets st) - 1 \<longrightarrow>
              getPresets (deletePreset (Some i) st) ! j = getPresets st ! Suc j)"
proof -
  let ?xs = "getPresets st"
  let ?ys = "take (nat i) ?xs @ drop (Suc (nat i)) ?xs"
  have eq: "getPresets (deletePreset (Some i) st) = ?ys"
    using assms
    by (simp add: deletePreset_def savePresets_def getPresets_def splice1_in_range
             split: option.splits)
  have n: "nat i < length ?xs" using assms by simp
  have len: "length ?ys = length ?xs - 1"
    using n by simp
  have lo: "\<forall>j. j < nat i \<longrightarrow> ?ys ! j = ?xs ! j"
    using n by (simp add: nth_append)
  have hi: "\<forall>j. nat i \<le> j \<and> j < length ?xs - 1 \<longrightarrow> ?ys ! j = ?xs ! Suc j"
    using n by (auto simp: nth_append min_def)
  show ?thesis using eq len lo hi by simp
qed

theorem C7_deletePreset_removes_index_witness:
  "(0::int) \<le> 1 \<and> 1 < int (length (getPresets exampleState)) \<and>
   map name (getPresets (deletePreset (Some 1) exampleState))
     = [''Fine Pen'', ''Highlighter'', ''Thick Outline'', ''Area Fill'', ''Danger Zone'']"
  using C7_deletePreset_removes_index [where i = 1 and st = exampleState]
  by (simp add: exampleState_def getPresets_def DEFAULT_PRESETS_def mkPreset_def)

lemma getPresets_saveBrushSettings: "getPresets (saveBrushSettings rt st) = getPresets st"
  by (simp add: saveBrushSettings_def updateCoreDrawingConfig_begin_def getPresets_def)

text \<open>
  C10: for every preset of the list in which all eight brush fields are present, loading
  it and then saving a preset under its name (the name field, trimmed, is the preset's
  name) appends a preset equal to the one loaded.
\<close>

theorem C10_load_save_round_trip:
  assumes "at_index (getPresets st) index = Some p" and "allFieldsPresent p"
    and "trim nm = name p" and "name p \<noteq> []"
  shows "getPresets (savePreset (Some nm) (loadPreset rt index st)) = getPresets st @ [p]"
proof -
  let ?st1 = "loadPreset rt index st"
  have ps: "getPresets ?st1 = getPresets st"
    using assms(1) by (simp add: loadPreset_def Let_def getPresets_saveBrushSettings)
                      (simp add: getPresets_def)
  have b: "snapshot (name p) (brush ?st1) = p"
    using assms(1,2)
    by (simp add: loadPreset_def Let_def brush_saveBrushSettings snapshot_fields
          allFieldsPresent_def coalesce_def)
  show ?thesis using savePreset_named [of nm ?st1] assms(3,4) ps b by simp
qed

lemma trim_Highlighter: "trim ''Highlighter'' = ''Highlighter''"
  by (simp add: trim_def isWhiteSpace_def)

theorem C10_load_save_round_trip_witness:
  "at_index (getPresets exampleState) (Some 2) = Some (DEFAULT_PRESETS ! 2) \<and>
   allFieldsPresent (DEFAULT_PRESETS ! 2) \<and>
   trim ''Highlighter'' = name (DEFAULT_PRESETS ! 2) \<and>
   name (DEFAULT_PRESETS ! 2) \<noteq> [] \<and>
   getPresets (savePreset (Some ''Highlighter'') (loadPreset rt0 (Some 2) exampleState))
     = DEFAULT_PRESETS @ [DEFAULT_PRESETS ! 2]"
proof -
  have a: "at_index (getPresets exampleState) (Some 2) = Some (DEFAULT_PRESETS ! 2)"
    by (simp add: at_index_def exampleState_def getPresets_def DEFAULT_PRESETS_def)
  have f: "allFieldsPresent (DEFAULT_PRESETS ! 2)"
    by (simp add: DEFAULT_PRESETS_def mkPreset_def allFieldsPresent_def nullish_def)
  have n: "name (DEFAULT_PRESETS ! 2) = ''Highlighter''"
    by (simp add: DEFAULT_PRESETS_def mkPreset_def)
  have g: "getPresets exampleState = DEFAULT_PRESETS"
    by (simp add: exampleState_def getPresets_def)
  show ?thesis
    using C10_load_save_round_trip [where st = exampleState and index = "Some 2"
        and p = "DEFAULT_PRESETS ! 2" and nm = "''Highlighter''" and rt = rt0] a f n g
    by (simp add: trim_Highlighter)
qed

subsection \<open>The palette position\<close>

lemma get_field_number_truthy: "get_field v k = JNum n \<Longrightarrow> truthy v"
  by (cases v) auto

lemma onRender_numeric:
  assumes l: "get_field (palettePosition st) ''left'' = num x"
    and t: "get_field (palettePosition st) ''top'' = num y"
  shows "position (onRender rt vw vh st) =
           (if - 50 \<le> x \<and> x < vw - 50 \<and> - 50 \<le> y \<and> y < vh - 50 then (num x, num y)
            else position st)"
  using l t get_field_number_truthy [OF l]
  by (auto simp: onRender_def isPositionInViewport_def Let_def ge_js_def lt_js_def)

lemma onRender_unsaved: "\<not> truthy (palettePosition st) \<Longrightarrow> onRender rt vw vh st = st"
  by (simp add: onRender_def)

text \<open>
  C8, as stated: the saved position is applied if and only if it lies inside the visible
  viewport. In a viewport of 1000 by 800 the saved position (980, 10) lies inside and is
  not applied, the window keeps (100, 100); the saved position (-30, -30) lies outside
  and is applied.
\<close>

theorem C8_viewport_counterexample:
  "insideVisibleViewport 1000 800 980 10 \<and>
   position (onRender rt0 1000 800
      (exampleState\<lparr>palettePosition := JObj 1 [(''left'', num 980), (''top'', num 10)]\<rparr>))
     = (num 100, num 100) \<and>
   \<not> insideVisibleViewport 1000 800 (- 30) (- 30) \<and>
   position (onRender rt0 1000 800
      (exampleState\<lparr>palettePosition := JObj 1 [(''left'', num (- 30)), (''top'', num (- 30))]\<rparr>))
     = (num (- 30), num (- 30))"
  by (simp add: insideVisibleViewport_def onRender_def isPositionInViewport_def Let_def
      ge_js_def lt_js_def exampleState_def)

text \<open>
  C8, amended: on render a saved position with numeric coordinates \<open>(x, y)\<close> is applied
  if and only if \<open>-50 \<le> x < vw - 50\<close> and \<open>-50 \<le> y < vh - 50\<close>, the viewport moved
  up and left by the margin of 50; otherwise the palette keeps its position, and with no
  saved position the render changes nothing.
\<close>

theorem C8_position_restored_within_margin:
  "(get_field (palettePosition st) ''left'' = num x \<and>
    get_field (palettePosition st) ''top'' = num y \<longrightarrow>
      position (onRender rt vw vh st) =
        (if - 50 \<le> x \<and> x < vw - 50 \<and> - 50 \<le> y \<and> y < vh - 50 then (num x, num y)
         else position st)) \<and>
   (\<not> truthy (palettePosition st) \<longrightarrow> onRender rt vw vh st = st)"
  using onRender_numeric [of st x y rt vw vh] onRender_unsaved [of st rt vw vh] by blast

theorem C8_position_restored_within_margin_witness:
  "get_field (JObj 1 [(''left'', num 200), (''top'', num 40)]) ''left'' = num 200 \<and>
   get_field (JObj 1 [(''left'', num 200), (''top'', num 40)]) ''top'' = num 40 \<and>
   position (onRender rt0 1000 800
      (exampleState\<lparr>palettePosition := JObj 1 [(''left'', num 200), (''top'', num 40)]\<rparr>))
     = (num 200, num 40) \<and>
   \<not> truthy (palettePosition exampleState) \<and>
   onRender rt0 1000 800 exampleState = exampleState"
  using C8_position_restored_within_margin [where rt = rt0 and vw = 1000 and vh = 800
          and x = 200 and y = 40
          and st = "exampleState\<lparr>palettePosition := JObj 1 [(''left'', num 200), (''top'', num 40)]\<rparr>"]
        C8_position_restored_within_margin [where rt = rt0 and vw = 1000 and vh = 800
          and x = 0 and y = 0 and st = exampleState]
  by (simp add: exampleState_def)

end
